theory Spec2Isabelle
  imports Main
begin

section \<open>The hstore formatter of pghstore.py\<close>

text \<open>
  The module is Python 2 (\<^verbatim>\<open>basestring\<close>, \<^verbatim>\<open>iteritems\<close>, \<^verbatim>\<open>cStringIO\<close>): a byte string
  (\<^verbatim>\<open>str\<close>) is a list of 8-bit characters, a \<^verbatim>\<open>unicode\<close> string a list of code points.
  The values that can stand as a key or a value of a pair are byte strings, unicode
  strings, \<^verbatim>\<open>None\<close>, integers (\<^verbatim>\<open>int\<close>) and tuples of such values.
\<close>

subsection \<open>Values, errors and the collaborators handed in by the caller\<close>

datatype pyval = PStr string | PUni "nat list" | PNone | PInt int | PTuple "pyval list"

text \<open>
  An error value records which \<^verbatim>\<open>raise\<close> of the source (or which operation of the
  interpreter) produced it, with the objects the message is formatted from; the rendered
  message text is not modelled.
\<close>

datatype reason =
    ExpectedMapping            \<comment> \<open>\<^verbatim>\<open>'expected a mapping object, not ' + type(obj).__name__\<close>\<close>
  | KeyNotString pyval         \<comment> \<open>\<^verbatim>\<open>'key %r is not a string'\<close>, formatted with that object\<close>
  | KeyMapNotCallable          \<comment> \<open>\<^verbatim>\<open>'key_map must be callable'\<close>\<close>
  | ValueMapNotCallable        \<comment> \<open>\<^verbatim>\<open>'value_map must be callable'\<close>\<close>
  | FileNotWritable            \<comment> \<open>\<^verbatim>\<open>'file must be a wrtiable file object ...'\<close>\<close>
  | ValueNotString pyval string  \<comment> \<open>\<^verbatim>\<open>'value %r of key %r is not a string' % (value, key)\<close>\<close>
  | ObjectNotCallable          \<comment> \<open>calling an object that is not callable\<close>
  | ObjectNotIterable          \<comment> \<open>unpacking an object that is not iterable\<close>
  | FormatNotEnoughArguments   \<comment> \<open>\<^verbatim>\<open>%\<close>: \<^verbatim>\<open>'not enough arguments for format string'\<close>\<close>
  | FormatNotAllConverted      \<comment> \<open>\<^verbatim>\<open>%\<close>: \<^verbatim>\<open>'not all arguments converted during string formatting'\<close>\<close>

datatype pyerr =
    TypeError reason
  | ValueError nat             \<comment> \<open>unpacking into two names a sequence of another length\<close>
  | ReError                    \<comment> \<open>\<^verbatim>\<open>sre_constants.error('invalid group reference')\<close>\<close>
  | UnicodeError               \<comment> \<open>raised by the codec of the \<^verbatim>\<open>encoding\<close> argument\<close>
  | Raised string              \<comment> \<open>any exception raised by a caller-supplied hook\<close>

text \<open>
  The \<^verbatim>\<open>encoding\<close> argument selects a codec of the Python library; the codec is a
  parameter of the model.
\<close>

record codec =
  codec_encode :: "nat list \<Rightarrow> pyerr + string"
  codec_decode :: "string \<Rightarrow> pyerr + nat list"

text \<open>
  What is passed as \<^verbatim>\<open>key_map\<close> or \<^verbatim>\<open>value_map\<close>: \<^verbatim>\<open>None\<close>, an object that is not
  callable, or a function. A function is taken to return a byte string, as the docstring
  asks of it (``returns a mapped string key''), or to raise.
\<close>

datatype hook = HNone | HNotCallable | HCallable "pyval \<Rightarrow> pyerr + string"

text \<open>
  The source object \<^verbatim>\<open>obj\<close> is seen through the three attributes that \<^verbatim>\<open>dump\<close>
  probes. Each is absent (\<open>None\<close>) or a method returning a finite sequence of elements.
  An element is a sequence of components (a tuple, a list) or an object that cannot be
  iterated.
\<close>

datatype elem = Seq "pyval list" | Atom

record pyobj =
  iteritems :: "elem list option"
  items :: "elem list option"
  iter :: "elem list option"

text \<open>A list (or any plain iterable) has \<^verbatim>\<open>__iter__\<close> only; a dict has all three.\<close>

definition py_list :: "elem list \<Rightarrow> pyobj" where
  "py_list xs = \<lparr>iteritems = None, items = None, iter = Some xs\<rparr>"

definition py_dict :: "(pyval \<times> pyval) list \<Rightarrow> pyobj" where
  "py_dict ps = \<lparr>iteritems = Some (map (\<lambda>(k, v). Seq [k, v]) ps),
                 items = Some (map (\<lambda>(k, v). Seq [k, v]) ps),
                 iter = Some (map (\<lambda>(k, v). case k of
                                  PStr s \<Rightarrow> Seq (map (\<lambda>c. PStr [c]) s)
                                | PUni u \<Rightarrow> Seq (map (\<lambda>c. PUni [c]) u)
                                | PTuple xs \<Rightarrow> Seq xs
                                | _ \<Rightarrow> Atom) ps)\<rparr>"

text \<open>
  The \<^verbatim>\<open>file\<close> argument: an object without a callable \<^verbatim>\<open>write\<close>, or a sink holding
  the chunks written so far, oldest first.
\<close>

datatype pyfile = NoWrite | Writable "string list"

subsection \<open>Regular-expression substitution\<close>

abbreviation dq :: char where "dq \<equiv> CHR 0x22"
abbreviation bs :: char where "bs \<equiv> CHR 0x5C"

text \<open>
  \<^verbatim>\<open>escape_re = re.compile(r'[\\"]')\<close> is a character class: it matches one character, a
  backslash or a double quote, and has no capturing group. A match therefore carries group
  0 (the whole match) only.
\<close>

definition escape_re :: "char \<Rightarrow> bool" where
  "escape_re c = (c = bs \<or> c = dq)"

definition escape_re_match :: "char \<Rightarrow> string list" where
  "escape_re_match c = [[c]]"

text \<open>
  The replacement \<^verbatim>\<open>r'\\\1'\<close> is the four characters backslash, backslash, backslash,
  \<open>1\<close>; Python 2's \<^verbatim>\<open>sre_parse.parse_template\<close> reads it as a literal backslash followed by
  a reference to group 1.
\<close>

datatype template_item = Literal char | GroupRef nat

definition escape_repl :: "template_item list" where
  "escape_repl = [Literal bs, GroupRef 1]"

text \<open>
  \<^verbatim>\<open>sre_parse.expand_template\<close>: each group reference is looked up in the match with
  \<^verbatim>\<open>match.group\<close>; the \<^verbatim>\<open>IndexError\<close> for a group that the pattern does not have is
  turned into \<^verbatim>\<open>error('invalid group reference')\<close>.
\<close>

fun expand_template :: "template_item list \<Rightarrow> string list \<Rightarrow> pyerr + string" where
  "expand_template [] groups = Inr []"
| "expand_template (Literal c # t) groups =
     (case expand_template t groups of Inl e \<Rightarrow> Inl e | Inr r \<Rightarrow> Inr (c # r))"
| "expand_template (GroupRef i # t) groups =
     (if i < length groups
      then (case expand_template t groups of Inl e \<Rightarrow> Inl e | Inr r \<Rightarrow> Inr (groups ! i @ r))
      else Inl ReError)"

text \<open>
  \<^verbatim>\<open>pattern.sub(repl, string)\<close> for a one-character pattern: scan left to right, copy a
  character that does not match, replace one that matches by the expanded template. The
  template is expanded at each match, so a string without a match is returned as it is.
\<close>

fun re_sub :: "(char \<Rightarrow> bool) \<Rightarrow> (char \<Rightarrow> string list) \<Rightarrow> template_item list \<Rightarrow> string
    \<Rightarrow> pyerr + string" where
  "re_sub pat groups_of repl [] = Inr []"
| "re_sub pat groups_of repl (c # cs) =
     (if pat c
      then (case expand_template repl (groups_of c) of
              Inl e \<Rightarrow> Inl e
            | Inr r \<Rightarrow> (case re_sub pat groups_of repl cs of
                         Inl e \<Rightarrow> Inl e | Inr rest \<Rightarrow> Inr (r @ rest)))
      else (case re_sub pat groups_of repl cs of
              Inl e \<Rightarrow> Inl e | Inr rest \<Rightarrow> Inr (c # rest)))"

text \<open>\<^verbatim>\<open>escape_re.sub(r'\\\1', s)\<close>, as called on the key and on the value.\<close>

definition escape :: "string \<Rightarrow> pyerr + string" where
  "escape s = re_sub escape_re escape_re_match escape_repl s"

subsection \<open>\<^verbatim>\<open>dump\<close>\<close>

text \<open>Lines 140--147: the pair iterator, by attribute probing.\<close>

definition get_items :: "pyobj \<Rightarrow> pyerr + elem list" where
  "get_items obj =
     (case iteritems obj of
        Some xs \<Rightarrow> Inr xs
      | None \<Rightarrow>
          (case items obj of
             Some ys \<Rightarrow> Inr ys
           | None \<Rightarrow>
               (case iter obj of
                  Some zs \<Rightarrow> Inr zs
                | None \<Rightarrow> Inl (TypeError ExpectedMapping))))"

text \<open>
  Lines 148--154: one \<^verbatim>\<open>if\<close>/\<^verbatim>\<open>elif\<close> chain. When \<^verbatim>\<open>key_map\<close> is \<^verbatim>\<open>None\<close> it is replaced
  by a function that raises, and no other branch of the chain runs.
\<close>

text \<open>
  Line 150, \<^verbatim>\<open>raise TypeError('key %r is not a string' % key)\<close>. The right operand of
  \<^verbatim>\<open>%\<close> is the key itself: when the key is a tuple, its components are the arguments of the
  format, which has one conversion. A tuple of one component gives the message about that
  component; the empty tuple and a longer tuple make the formatting itself raise a
  \<^verbatim>\<open>TypeError\<close>. Any other key is the single argument.
\<close>

fun key_error :: "pyval \<Rightarrow> pyerr" where
  "key_error (PTuple []) = TypeError FormatNotEnoughArguments"
| "key_error (PTuple [x]) = TypeError (KeyNotString x)"
| "key_error (PTuple (x # y # zs)) = TypeError FormatNotAllConverted"
| "key_error key = TypeError (KeyNotString key)"

definition default_key_map :: "pyval \<Rightarrow> pyerr + string" where
  "default_key_map key = Inl (key_error key)"

definition check_maps :: "hook \<Rightarrow> hook \<Rightarrow> pyerr + (pyval \<Rightarrow> pyerr + string)" where
  "check_maps key_map value_map =
     (case key_map of
        HNone \<Rightarrow> Inr default_key_map
      | HNotCallable \<Rightarrow> Inl (TypeError KeyMapNotCallable)
      | HCallable f \<Rightarrow>
          (case value_map of
             HNotCallable \<Rightarrow> Inl (TypeError ValueMapNotCallable)
           | _ \<Rightarrow> Inr f))"

text \<open>\<^verbatim>\<open>for key, value in items\<close>: each element is unpacked into two names.\<close>

fun unpack :: "elem \<Rightarrow> pyerr + (pyval \<times> pyval)" where
  "unpack (Seq [key, value]) = Inr (key, value)"
| "unpack (Seq xs) = Inl (ValueError (length xs))"
| "unpack Atom = Inl (TypeError ObjectNotIterable)"

text \<open>Lines 162--165: the key. \<^verbatim>\<open>basestring\<close> is \<^verbatim>\<open>str\<close> or \<^verbatim>\<open>unicode\<close>.\<close>

fun resolve_key :: "(pyval \<Rightarrow> pyerr + string) \<Rightarrow> codec \<Rightarrow> pyval \<Rightarrow> pyerr + string" where
  "resolve_key key_map enc (PStr s) = Inr s"
| "resolve_key key_map enc (PUni u) = codec_encode enc u"
| "resolve_key key_map enc key = key_map key"

text \<open>
  Lines 166--172: the value. \<^verbatim>\<open>None\<close> is not a \<^verbatim>\<open>basestring\<close>, so it takes the first
  branch like every other object that is not text. The key in the message is the key
  as resolved above; the right operand of \<^verbatim>\<open>%\<close> is the pair \<^verbatim>\<open>(value, key)\<close>, so the
  message is formatted with both, whatever they are.
\<close>

fun resolve_value :: "hook \<Rightarrow> codec \<Rightarrow> string \<Rightarrow> pyval \<Rightarrow> pyerr + string" where
  "resolve_value value_map enc key (PStr s) = Inr s"
| "resolve_value value_map enc key (PUni u) = codec_encode enc u"
| "resolve_value value_map enc key value =
     (case value_map of
        HNone \<Rightarrow> Inl (TypeError (ValueNotString value key))
      | HNotCallable \<Rightarrow> Inl (TypeError ObjectNotCallable)
      | HCallable g \<Rightarrow> g value)"

text \<open>
  Lines 161--181: the body of the loop, on the state \<open>(first, out)\<close> of the flag and the
  chunks written. The opening quote is written before the key is escaped, so an error of
  the substitution leaves it in the sink.
\<close>

definition "write" :: "string \<Rightarrow> string list \<Rightarrow> string list" where
  "write s out = out @ [s]"

definition dump_pair :: "(pyval \<Rightarrow> pyerr + string) \<Rightarrow> hook \<Rightarrow> codec \<Rightarrow> elem
    \<Rightarrow> bool \<times> string list \<Rightarrow> pyerr option \<times> bool \<times> string list" where
  "dump_pair key_map value_map enc e st =
     (case st of (first, out) \<Rightarrow>
      (case unpack e of
         Inl err \<Rightarrow> (Some err, first, out)
       | Inr (key, value) \<Rightarrow>
      (case resolve_key key_map enc key of
         Inl err \<Rightarrow> (Some err, first, out)
       | Inr k \<Rightarrow>
      (case resolve_value value_map enc k value of
         Inl err \<Rightarrow> (Some err, first, out)
       | Inr v \<Rightarrow>
      (let out1 = write (if first then [dq] else '','' @ [dq]) out in
      (case escape k of
         Inl err \<Rightarrow> (Some err, False, out1)
       | Inr ek \<Rightarrow>
      (let out2 = write ([dq] @ ''=>'' @ [dq]) (write ek out1) in
      (case escape v of
         Inl err \<Rightarrow> (Some err, False, out2)
       | Inr ev \<Rightarrow> (None, False, write [dq] (write ev out2))))))))))"

fun dump_loop :: "(pyval \<Rightarrow> pyerr + string) \<Rightarrow> hook \<Rightarrow> codec \<Rightarrow> elem list
    \<Rightarrow> bool \<times> string list \<Rightarrow> pyerr option \<times> bool \<times> string list" where
  "dump_loop key_map value_map enc [] st = (None, st)"
| "dump_loop key_map value_map enc (e # es) st =
     (case dump_pair key_map value_map enc e st of
        (Some err, st') \<Rightarrow> (Some err, st')
      | (None, st') \<Rightarrow> dump_loop key_map value_map enc es st')"

text \<open>
  \<^verbatim>\<open>dump(obj, file, key_map, value_map, encoding)\<close> returns the exception raised, if any,
  and the file as it is left.
\<close>

definition dump :: "pyobj \<Rightarrow> pyfile \<Rightarrow> hook \<Rightarrow> hook \<Rightarrow> codec \<Rightarrow> pyerr option \<times> pyfile" where
  "dump obj file key_map value_map enc =
     (case get_items obj of
        Inl err \<Rightarrow> (Some err, file)
      | Inr its \<Rightarrow>
     (case check_maps key_map value_map of
        Inl err \<Rightarrow> (Some err, file)
      | Inr key_map' \<Rightarrow>
     (case file of
        NoWrite \<Rightarrow> (Some (TypeError FileNotWritable), file)
      | Writable out \<Rightarrow>
     (case dump_loop key_map' value_map enc its (True, out) of
        (r, first, out') \<Rightarrow> (r, Writable out')))))"

subsection \<open>\<^verbatim>\<open>dumps\<close>\<close>

text \<open>\<^verbatim>\<open>StringIO.StringIO()\<close> is an empty sink; \<^verbatim>\<open>getvalue\<close> joins what was written.\<close>

definition StringIO :: pyfile where
  "StringIO = Writable []"

fun getvalue :: "pyfile \<Rightarrow> string" where
  "getvalue (Writable out) = concat out"
| "getvalue NoWrite = []"

text \<open>The chunks held by a sink.\<close>

fun chunks :: "pyfile \<Rightarrow> string list" where
  "chunks (Writable out) = out"
| "chunks NoWrite = []"

definition dumps :: "pyobj \<Rightarrow> hook \<Rightarrow> hook \<Rightarrow> codec \<Rightarrow> bool \<Rightarrow> pyerr + pyval" where
  "dumps obj key_map value_map enc return_unicode =
     (case dump obj StringIO key_map value_map enc of
        (Some err, b) \<Rightarrow> Inl err
      | (None, b) \<Rightarrow>
          (let result = getvalue b in
           if return_unicode
           then (case codec_decode enc result of Inl err \<Rightarrow> Inl err | Inr u \<Rightarrow> Inr (PUni u))
           else Inr (PStr result)))"

subsection \<open>Collaborators used in the examples\<close>

text \<open>
  The builtin \<^verbatim>\<open>str\<close>, the \<^verbatim>\<open>value_map\<close> of the docstring's example: a byte string is
  returned as it is, a unicode string is encoded as ASCII, \<^verbatim>\<open>None\<close> and integers are
  printed, and a tuple is printed as its \<^verbatim>\<open>repr\<close>.
\<close>

definition digit_char :: "nat \<Rightarrow> char" where
  "digit_char d = ''0123456789'' ! d"

fun digits :: "nat \<Rightarrow> string" where
  "digits n = (if n < 10 then [digit_char n] else digits (n div 10) @ [digit_char (n mod 10)])"

definition int_str :: "int \<Rightarrow> string" where
  "int_str i = (if i < 0 then ''-'' @ digits (nat (- i)) else digits (nat i))"

text \<open>\<^verbatim>\<open>'%0wx' % n\<close> for a number of at most \<open>w\<close> hexadecimal digits.\<close>

definition hex_digit :: "nat \<Rightarrow> char" where
  "hex_digit d = ''0123456789abcdef'' ! d"

fun hex :: "nat \<Rightarrow> nat \<Rightarrow> string" where
  "hex 0 n = []"
| "hex (Suc w) n = hex w (n div 16) @ [hex_digit (n mod 16)]"

abbreviation sq :: char where "sq \<equiv> CHR 0x27"

text \<open>
  \<^verbatim>\<open>repr\<close> of a byte string (\<^verbatim>\<open>PyString_Repr\<close>): single quotes, unless the string holds a
  single quote and no double quote; the quote in use and the backslash are escaped, tab,
  newline and carriage return are written \<^verbatim>\<open>\t\<close>, \<^verbatim>\<open>\n\<close>, \<^verbatim>\<open>\r\<close>, and every other byte
  outside the printable ASCII range is written \<^verbatim>\<open>\xhh\<close>.
\<close>

definition str_quote :: "string \<Rightarrow> char" where
  "str_quote s = (if sq \<in> set s \<and> dq \<notin> set s then dq else sq)"

definition repr_byte :: "char \<Rightarrow> char \<Rightarrow> string" where
  "repr_byte q c =
     (if c = q \<or> c = bs then [bs, c]
      else if c = CHR 0x09 then [bs, CHR ''t'']
      else if c = CHR 0x0A then [bs, CHR ''n'']
      else if c = CHR 0x0D then [bs, CHR ''r'']
      else if (of_char c :: nat) < 32 \<or> 127 \<le> (of_char c :: nat)
        then [bs, CHR ''x''] @ hex 2 (of_char c)
      else [c])"

definition repr_str :: "string \<Rightarrow> string" where
  "repr_str s = [str_quote s] @ concat (map (repr_byte (str_quote s)) s) @ [str_quote s]"

text \<open>
  \<^verbatim>\<open>repr\<close> of a unicode string: the prefix \<^verbatim>\<open>u\<close>, the same choice of quote, and the code
  points from 256 on written \<^verbatim>\<open>\uhhhh\<close>, from 65536 on \<^verbatim>\<open>\Uhhhhhhhh\<close>.
\<close>

definition uni_quote :: "nat list \<Rightarrow> nat" where
  "uni_quote u = (if 39 \<in> set u \<and> 34 \<notin> set u then 34 else 39)"

definition repr_code_point :: "nat \<Rightarrow> nat \<Rightarrow> string" where
  "repr_code_point q n =
     (if n = q \<or> n = 92 then [bs, char_of n]
      else if 65536 \<le> n then [bs, CHR ''U''] @ hex 8 n
      else if 256 \<le> n then [bs, CHR ''u''] @ hex 4 n
      else if n = 9 then [bs, CHR ''t'']
      else if n = 10 then [bs, CHR ''n'']
      else if n = 13 then [bs, CHR ''r'']
      else if n < 32 \<or> 127 \<le> n then [bs, CHR ''x''] @ hex 2 n
      else [char_of n])"

definition repr_uni :: "nat list \<Rightarrow> string" where
  "repr_uni u =
     ''u'' @ [char_of (uni_quote u)] @ concat (map (repr_code_point (uni_quote u)) u)
       @ [char_of (uni_quote u)]"

text \<open>\<^verbatim>\<open>', '.join(xs)\<close>.\<close>

fun comma_join :: "string list \<Rightarrow> string" where
  "comma_join [] = []"
| "comma_join [x] = x"
| "comma_join (x # y # ys) = x @ '', '' @ comma_join (y # ys)"

text \<open>
  \<^verbatim>\<open>repr\<close> of a value; a tuple is the \<^verbatim>\<open>repr\<close> of its components between parentheses,
  separated by a comma and a space, with a comma after the only component of a tuple of
  one.
\<close>

fun py_repr :: "pyval \<Rightarrow> string" where
  "py_repr (PStr s) = repr_str s"
| "py_repr (PUni u) = repr_uni u"
| "py_repr PNone = ''None''"
| "py_repr (PInt i) = int_str i"
| "py_repr (PTuple xs) =
     ''('' @ comma_join (map py_repr xs) @ (if length xs = 1 then '','' else []) @ '')''"

fun py_str :: "pyval \<Rightarrow> pyerr + string" where
  "py_str (PStr s) = Inr s"
| "py_str (PUni u) = (if list_all (\<lambda>n. n < 128) u then Inr (map char_of u) else Inl UnicodeError)"
| "py_str PNone = Inr ''None''"
| "py_str (PInt i) = Inr (int_str i)"
| "py_str (PTuple xs) = Inr (py_repr (PTuple xs))"

text \<open>The codec \<^verbatim>\<open>'latin-1'\<close>: one byte for each code point below 256.\<close>

definition latin1 :: codec where
  "latin1 = \<lparr>codec_encode = (\<lambda>u. if list_all (\<lambda>n. n < 256) u then Inr (map char_of u)
                                  else Inl UnicodeError),
             codec_decode = (\<lambda>s. Inr (map of_char s))\<rparr>"

subsection \<open>The words of the specification\<close>

text \<open>\<^verbatim>\<open>isinstance(x, basestring)\<close>: the value is text.\<close>

fun is_text :: "pyval \<Rightarrow> bool" where
  "is_text (PStr s) = True"
| "is_text (PUni u) = True"
| "is_text v = False"

text \<open>\<^verbatim>\<open>isinstance(x, tuple)\<close>.\<close>

fun is_tuple :: "pyval \<Rightarrow> bool" where
  "is_tuple (PTuple xs) = True"
| "is_tuple v = False"

text \<open>
  The escaping that the specification describes: every double quote and every backslash
  is prefixed with one backslash, and no other character is altered.
\<close>

fun spec_escape :: "string \<Rightarrow> string" where
  "spec_escape [] = []"
| "spec_escape (c # cs) = (if c = dq \<or> c = bs then bs # c # spec_escape cs else c # spec_escape cs)"

text \<open>A string that holds neither of the two characters.\<close>

definition plain :: "string \<Rightarrow> bool" where
  "plain s = list_all (\<lambda>c. \<not> escape_re c) s"

text \<open>
  The rendering of one pair of text that the specification describes, and the rendering
  of a sequence of them: joined with single commas, nothing before, nothing after.
\<close>

definition spec_pair :: "string \<times> string \<Rightarrow> string" where
  "spec_pair p = [dq] @ spec_escape (fst p) @ [dq] @ ''=>'' @ [dq] @ spec_escape (snd p) @ [dq]"

fun spec_join :: "string list \<Rightarrow> string" where
  "spec_join [] = []"
| "spec_join [x] = x"
| "spec_join (x # y # ys) = x @ '','' @ spec_join (y # ys)"

definition spec_encode :: "(string \<times> string) list \<Rightarrow> string" where
  "spec_encode ps = spec_join (map spec_pair ps)"

text \<open>A sequence of pairs of byte strings, as a source object.\<close>

definition text_pairs :: "(string \<times> string) list \<Rightarrow> elem list" where
  "text_pairs ps = map (\<lambda>p. Seq [PStr (fst p), PStr (snd p)]) ps"

definition plain_pair :: "string \<times> string \<Rightarrow> bool" where
  "plain_pair p = (plain (fst p) \<and> plain (snd p))"

text \<open>
  The chunks that the loop writes for a pair of byte strings which the substitution leaves
  as they are, and for a sequence of such pairs.
\<close>

definition pair_chunks :: "bool \<Rightarrow> string \<times> string \<Rightarrow> string list" where
  "pair_chunks first p =
     [if first then [dq] else '','' @ [dq], fst p, [dq] @ ''=>'' @ [dq], snd p, [dq]]"

fun loop_chunks :: "bool \<Rightarrow> (string \<times> string) list \<Rightarrow> string list" where
  "loop_chunks first [] = []"
| "loop_chunks first (p # ps) = pair_chunks first p @ loop_chunks False ps"

subsection \<open>The decoder of the specification\<close>

text \<open>
  The module has no reader: \<^verbatim>\<open>__all__\<close> is \<^verbatim>\<open>dumps\<close> and \<^verbatim>\<open>dump\<close>. The round trip is stated
  against the decoder that section 4.2 of the specification describes, in its strict mode
  and with the exact, case-sensitive \<^verbatim>\<open>NULL\<close> that it recommends.
\<close>

text \<open>
  Modelled from the spec: the kinds of \<^verbatim>\<open>ParseError\<close> of the decoder (unterminated quoted
  segment, missing \<^verbatim>\<open>=>\<close>, trailing comma, dangling backslash, unexpected bare token), which
  the repository does not have.
\<close>

datatype parse_reason =
  Unterminated | MissingArrow | TrailingComma | DanglingEscape | UnexpectedToken

text \<open>
  Modelled from the spec: the \<^verbatim>\<open>ParseError\<close> of the decoder, carrying the offset and the
  reason.
\<close>

datatype parse_error = ParseError nat parse_reason

text \<open>Modelled from the spec: the whitespace that the decoder tolerates and skips.\<close>

definition is_space :: "char \<Rightarrow> bool" where
  "is_space c = (c = CHR '' '' \<or> c = CHR 0x09 \<or> c = CHR 0x0A \<or> c = CHR 0x0D)"

text \<open>Modelled from the spec: skipping the whitespace before a pair or a separator.\<close>

definition skip_ws :: "string \<Rightarrow> string" where
  "skip_ws s = dropWhile is_space s"

text \<open>
  Modelled from the spec: the escaped key or value of the decoder's grammar, read after its
  opening quote up to the closing one; a backslash followed by a quote or a backslash
  stands for that character, any other backslash is an error. The result is the decoded
  text and the input that follows; an error carries the input at which it arose.
\<close>

fun quoted :: "string \<Rightarrow> (parse_reason \<times> string) + (string \<times> string)" where
  "quoted [] = Inl (Unterminated, [])"
| "quoted (c # cs) =
     (if c = dq then Inr ([], cs)
      else if c = bs then
        (case cs of
           [] \<Rightarrow> Inl (DanglingEscape, c # cs)
         | d # ds \<Rightarrow>
             if d = dq \<or> d = bs
             then (case quoted ds of Inl e \<Rightarrow> Inl e | Inr (t, r) \<Rightarrow> Inr (d # t, r))
             else Inl (DanglingEscape, c # cs))
      else (case quoted cs of Inl e \<Rightarrow> Inl e | Inr (t, r) \<Rightarrow> Inr (c # t, r)))"

text \<open>
  Modelled from the spec: the value of a pair of the decoder's grammar, a quoted text or
  the bare literal \<^verbatim>\<open>NULL\<close>.
\<close>

definition pair_value :: "string \<Rightarrow> (parse_reason \<times> string) + (string option \<times> string)" where
  "pair_value s =
     (case s of
        c # s1 \<Rightarrow>
          if c = dq
          then (case quoted s1 of Inl e \<Rightarrow> Inl e | Inr (v, r) \<Rightarrow> Inr (Some v, r))
          else if take 4 s = ''NULL'' then Inr (None, drop 4 s)
          else Inl (UnexpectedToken, s)
      | [] \<Rightarrow> Inl (UnexpectedToken, s))"

text \<open>
  Modelled from the spec: one pair of the decoder's grammar, a quoted key, \<^verbatim>\<open>=>\<close> and the
  value.
\<close>

definition pair :: "string \<Rightarrow> (parse_reason \<times> string) + ((string \<times> string option) \<times> string)" where
  "pair s =
     (case s of
        c # s1 \<Rightarrow>
          if c = dq
          then (case quoted s1 of
                  Inl e \<Rightarrow> Inl e
                | Inr (k, s2) \<Rightarrow>
                    if take 2 s2 = ''=>''
                    then (case pair_value (drop 2 s2) of
                            Inl e \<Rightarrow> Inl e
                          | Inr (v, r) \<Rightarrow> Inr ((k, v), r))
                    else Inl (MissingArrow, s2))
          else Inl (UnexpectedToken, s)
      | [] \<Rightarrow> Inl (UnexpectedToken, s))"

text \<open>Every part of the grammar consumes input, which is why the decoder terminates.\<close>

lemma quoted_shorter: "quoted s = Inr (t, r) \<Longrightarrow> length r < length s"
proof (induction s arbitrary: t r rule: quoted.induct)
  case 1
  then show ?case by simp
next
  case (2 c cs)
  show ?case
  proof (cases "c = dq")
    case True
    with "2.prems" show ?thesis by simp
  next
    case nq: False
    show ?thesis
    proof (cases "c = bs")
      case True
      with nq "2.prems" obtain d ds where cs: "cs = d # ds" and d: "d = dq \<or> d = bs"
        by (cases cs) (auto split: if_splits)
      with True nq "2.prems" obtain t' where "quoted ds = Inr (t', r)"
        by (auto split: sum.splits)
      from "2.IH"(1) [OF nq True cs d this] cs show ?thesis by simp
    next
      case False
      with nq "2.prems" obtain t' where "quoted cs = Inr (t', r)"
        by (auto split: sum.splits)
      from "2.IH"(2) [OF nq False this] show ?thesis by simp
    qed
  qed
qed

lemma pair_value_shorter:
  assumes "pair_value s = Inr (v, r)"
  shows "length r < length s"
proof (cases s)
  case Nil
  with assms show ?thesis by (simp add: pair_value_def)
next
  case (Cons c s1)
  show ?thesis
  proof (cases "c = dq")
    case True
    with assms Cons obtain t where "quoted s1 = Inr (t, r)"
      by (auto simp add: pair_value_def split: sum.splits)
    from quoted_shorter [OF this] Cons show ?thesis by simp
  next
    case False
    with assms Cons have "r = drop 4 s"
      by (auto simp add: pair_value_def split: if_splits)
    with Cons show ?thesis by simp
  qed
qed

lemma pair_shorter:
  assumes "pair s = Inr (p, r)"
  shows "length r < length s"
proof (cases s)
  case Nil
  with assms show ?thesis by (simp add: pair_def)
next
  case (Cons c s1)
  with assms have c: "c = dq" by (auto simp add: pair_def split: if_splits)
  with assms Cons obtain k s2 where q: "quoted s1 = Inr (k, s2)"
    by (cases "quoted s1") (auto simp add: pair_def)
  with assms Cons c obtain v where "pair_value (drop 2 s2) = Inr (v, r)"
    by (cases "pair_value (drop 2 s2)") (auto simp add: pair_def split: if_splits)
  from pair_value_shorter [OF this] quoted_shorter [OF q] Cons show ?thesis by simp
qed

lemma skip_ws_length: "length (skip_ws s) \<le> length s"
  by (simp add: skip_ws_def length_dropWhile_le)

text \<open>
  Modelled from the spec: the pairs of the decoder's grammar, separated by commas with
  whitespace tolerated around each separator; a comma with no pair after it is an error.
\<close>

function pairs :: "string \<Rightarrow> (parse_reason \<times> string) + (string \<times> string option) list" where
  "pairs s =
     (case pair s of
        Inl e \<Rightarrow> Inl e
      | Inr (p, r) \<Rightarrow>
          (case skip_ws r of
             [] \<Rightarrow> Inr [p]
           | c # r1 \<Rightarrow>
               if c = CHR '',''
               then (if skip_ws r1 = [] then Inl (TrailingComma, skip_ws r1)
                     else (case pairs (skip_ws r1) of
                             Inl e \<Rightarrow> Inl e
                           | Inr ps \<Rightarrow> Inr (p # ps)))
               else Inl (UnexpectedToken, c # r1)))"
  by pat_completeness auto
termination
proof (relation "measure length")
  show "wf (measure length)" by simp
next
  fix s x2 p r c r1
  assume a: "pair s = Inr x2" "(p, r) = x2" "skip_ws r = c # r1"
  from a(1,2) have "pair s = Inr (p, r)" by simp
  then have "length r < length s" by (rule pair_shorter)
  moreover have "length (skip_ws r) \<le> length r" by (rule skip_ws_length)
  moreover have "length (skip_ws r1) \<le> length r1" by (rule skip_ws_length)
  ultimately show "(skip_ws r1, s) \<in> measure length" using a(3) by simp
qed

declare pairs.simps [simp del]

text \<open>
  Modelled from the spec: \<^verbatim>\<open>decode(text)\<close>, the ordered sequence of pairs of key and value
  (\<open>None\<close> for null) or a \<^verbatim>\<open>ParseError\<close> with the offset at which the input is malformed;
  the empty input decodes to no pair.
\<close>

definition decode :: "string \<Rightarrow> parse_error + (string \<times> string option) list" where
  "decode text =
     (if skip_ws text = [] then Inr []
      else (case pairs (skip_ws text) of
              Inl (reason, rest) \<Rightarrow> Inl (ParseError (length text - length rest) reason)
            | Inr ps \<Rightarrow> Inr ps))"

text \<open>The pairs that decoding gives back for pairs of text: no value is null.\<close>

definition some_pairs :: "(string \<times> string) list \<Rightarrow> (string \<times> string option) list" where
  "some_pairs ps = map (\<lambda>p. (fst p, Some (snd p))) ps"

section \<open>Properties of the loop\<close>

lemma dump_pair_sink:
  "dump_pair km vm enc e (first, out) =
     (case dump_pair km vm enc e (first, []) of (r, f, ws) \<Rightarrow> (r, f, out @ ws))"
  by (simp add: dump_pair_def write_def Let_def split: sum.splits prod.splits)

lemma dump_loop_sink:
  "dump_loop km vm enc es (first, out) =
     (case dump_loop km vm enc es (first, []) of (r, f, ws) \<Rightarrow> (r, f, out @ ws))"
proof (induction es arbitrary: first out)
  case Nil
  show ?case by simp
next
  case (Cons e es)
  obtain r f ws where p: "dump_pair km vm enc e (first, []) = (r, f, ws)"
    by (cases "dump_pair km vm enc e (first, [])") auto
  have q: "dump_pair km vm enc e (first, out) = (r, f, out @ ws)"
    using dump_pair_sink [of km vm enc e first out] p by simp
  show ?case
  proof (cases r)
    case None
    obtain r' f' ws' where l: "dump_loop km vm enc es (f, []) = (r', f', ws')"
      by (cases "dump_loop km vm enc es (f, [])") auto
    show ?thesis
      using None p q l Cons.IH [of f "out @ ws"] Cons.IH [of f ws] by simp
  next
    case (Some err)
    then show ?thesis using p q by simp
  qed
qed

lemma dump_loop_append:
  "dump_loop km vm enc (xs @ ys) st =
     (case dump_loop km vm enc xs st of
        (Some err, st') \<Rightarrow> (Some err, st')
      | (None, st') \<Rightarrow> dump_loop km vm enc ys st')"
  by (induction xs arbitrary: st) (auto split: prod.splits option.splits)

lemma dump_pair_flag:
  "dump_pair km vm enc e (first, out) = (None, f, out') \<Longrightarrow> \<not> f"
  by (auto simp add: dump_pair_def Let_def split: sum.splits prod.splits)

lemma dump_loop_flag:
  "dump_loop km vm enc es (first, out) = (None, f, out') \<Longrightarrow> f = (first \<and> es = [])"
proof (induction es arbitrary: first out)
  case Nil
  then show ?case by simp
next
  case (Cons e es)
  obtain r a b where p: "dump_pair km vm enc e (first, out) = (r, a, b)"
    by (cases "dump_pair km vm enc e (first, out)") auto
  with Cons.prems have r: "r = None" by (cases r) auto
  with p have a: "\<not> a" by (auto dest: dump_pair_flag)
  from Cons.prems p r have "dump_loop km vm enc es (a, b) = (None, f, out')" by simp
  from Cons.IH [OF this] a show ?case by simp
qed


lemma get_items_py_list: "get_items (py_list xs) = Inr xs"
  by (simp add: get_items_def py_list_def)

lemma dump_Writable:
  "get_items obj = Inr its \<Longrightarrow> check_maps km vm = Inr kf \<Longrightarrow>
   dump obj (Writable out) km vm enc =
     (case dump_loop kf vm enc its (True, out) of (r, f, out') \<Rightarrow> (r, Writable out'))"
  by (simp add: dump_def)

lemma dump_sink:
  "dump obj (Writable out) km vm enc =
     (case dump obj (Writable []) km vm enc of (r, fl) \<Rightarrow> (r, Writable (out @ chunks fl)))"
proof (cases "get_items obj")
  case (Inl e)
  then show ?thesis by (simp add: dump_def)
next
  case items: (Inr its)
  show ?thesis
  proof (cases "check_maps km vm")
    case (Inl e)
    then show ?thesis using items by (simp add: dump_def)
  next
    case (Inr kf)
    obtain r f ws where l: "dump_loop kf vm enc its (True, []) = (r, f, ws)"
      by (cases "dump_loop kf vm enc its (True, [])") auto
    then have "dump_loop kf vm enc its (True, out) = (r, f, out @ ws)"
      using dump_loop_sink [of kf vm enc its True out] by simp
    with l show ?thesis
      by (simp add: dump_Writable [OF items Inr])
  qed
qed

lemma dump_Writable_result:
  assumes "dump obj (Writable out) km vm enc = (r, fl)"
  shows "fl = Writable (out @ chunks (snd (dump obj (Writable []) km vm enc))) \<and>
         fst (dump obj (Writable []) km vm enc) = r"
  using assms dump_sink [of obj out km vm enc]
  by (cases "dump obj (Writable []) km vm enc") auto

lemma dump_StringIO_chunks:
  "snd (dump obj (Writable []) km vm enc) = Writable (chunks (snd (dump obj (Writable []) km vm enc)))"
  by (auto simp add: dump_def split: sum.splits prod.splits)

lemma dumps_by_dump:
  "dumps obj km vm enc ru =
     (case fst (dump obj (Writable []) km vm enc) of
        Some err \<Rightarrow> Inl err
      | None \<Rightarrow>
          (if ru
           then (case codec_decode enc (concat (chunks (snd (dump obj (Writable []) km vm enc)))) of
                   Inl err \<Rightarrow> Inl err | Inr u \<Rightarrow> Inr (PUni u))
           else Inr (PStr (concat (chunks (snd (dump obj (Writable []) km vm enc)))))))"
proof -
  obtain r fl where d: "dump obj (Writable []) km vm enc = (r, fl)"
    by (cases "dump obj (Writable []) km vm enc") auto
  with dump_StringIO_chunks [of obj km vm enc] have "fl = Writable (chunks fl)" by simp
  then have "getvalue fl = concat (chunks fl)" by (cases fl) auto
  with d show ?thesis
    by (simp add: dumps_def StringIO_def Let_def split: option.splits)
qed

lemma dumps_raises:
  assumes "dump obj (Writable out) km vm enc = (Some err, fl)"
  shows "dumps obj km vm enc ru = Inl err"
  using dump_Writable_result [OF assms] by (simp add: dumps_by_dump)

lemma dump_reaches:
  assumes its: "get_items obj = Inr (pre @ e # rest)"
    and pre: "dump (py_list pre) (Writable out) km vm enc = (None, Writable out')"
    and maps: "check_maps km vm = Inr kf"
  shows "dump obj (Writable out) km vm enc =
           (case dump_loop kf vm enc (e # rest) (pre = [], out') of
              (r, f, out'') \<Rightarrow> (r, Writable out''))"
proof -
  obtain r f ws where l: "dump_loop kf vm enc pre (True, out) = (r, f, ws)"
    by (cases "dump_loop kf vm enc pre (True, out)") auto
  with pre maps have "r = None" "ws = out'"
    by (simp_all add: dump_Writable [OF get_items_py_list maps])
  with l have l': "dump_loop kf vm enc pre (True, out) = (None, f, out')" by simp
  from dump_loop_flag [OF l'] have "f = (pre = [])" by simp
  with l' show ?thesis
    by (simp add: dump_Writable [OF its maps] dump_loop_append)
qed

lemma dump_pair_key_error:
  "resolve_key kf enc key = Inl err \<Longrightarrow>
   dump_pair kf vm enc (Seq [key, val]) st = (Some err, st)"
  by (cases st) (simp add: dump_pair_def)

lemma dump_pair_value_error:
  "resolve_key kf enc key = Inr k \<Longrightarrow> resolve_value vm enc k val = Inl err \<Longrightarrow>
   dump_pair kf vm enc (Seq [key, val]) st = (Some err, st)"
  by (cases st) (simp add: dump_pair_def)

lemma dump_stops_at_key:
  assumes "get_items obj = Inr (pre @ Seq [key, val] # rest)"
    and "dump (py_list pre) (Writable out) km vm enc = (None, Writable out')"
    and "check_maps km vm = Inr kf"
    and "resolve_key kf enc key = Inl err"
  shows "dump obj (Writable out) km vm enc = (Some err, Writable out')"
  using dump_reaches [OF assms(1-3)] dump_pair_key_error [OF assms(4)]
  by simp

lemma dump_stops_at_value:
  assumes "get_items obj = Inr (pre @ Seq [key, val] # rest)"
    and "dump (py_list pre) (Writable out) km vm enc = (None, Writable out')"
    and "check_maps km vm = Inr kf"
    and "resolve_key kf enc key = Inr k"
    and "resolve_value vm enc k val = Inl err"
  shows "dump obj (Writable out) km vm enc = (Some err, Writable out')"
  using dump_reaches [OF assms(1-3)] dump_pair_value_error [OF assms(4,5)]
  by simp

lemma resolve_key_not_text:
  "\<not> is_text key \<Longrightarrow> resolve_key kf enc key = kf key"
  by (cases key) auto

lemma resolve_value_not_text:
  "\<not> is_text val \<Longrightarrow> resolve_value vm enc k val =
     (case vm of
        HNone \<Rightarrow> Inl (TypeError (ValueNotString val k))
      | HNotCallable \<Rightarrow> Inl (TypeError ObjectNotCallable)
      | HCallable g \<Rightarrow> g val)"
  by (cases val) auto

lemma escape_plain: "plain s \<Longrightarrow> escape s = Inr s"
  by (induction s) (auto simp add: plain_def escape_def)

lemma escape_not_plain: "\<not> plain s \<Longrightarrow> escape s = Inl ReError"
  by (induction s)
     (auto simp add: plain_def escape_def escape_repl_def escape_re_match_def split: sum.splits)


section \<open>What the encoder does on pairs of byte strings\<close>

text \<open>
  The substitution returns a string without quote and backslash as it is, and raises on
  every other string: the replacement refers to group 1 and the pattern has no group.
\<close>

lemma escape_eq: "escape s = (if plain s then Inr s else Inl ReError)"
  by (simp add: escape_plain escape_not_plain)

lemma spec_escape_plain: "plain s \<Longrightarrow> spec_escape s = s"
  by (induction s) (auto simp add: plain_def escape_re_def)

lemma spec_pair_plain:
  "plain_pair p \<Longrightarrow> spec_pair p = [dq] @ fst p @ [dq] @ ''=>'' @ [dq] @ snd p @ [dq]"
  by (simp add: plain_pair_def spec_pair_def spec_escape_plain)

lemma spec_join_Cons: "spec_join (x # xs) = x @ concat (map (\<lambda>y. '','' @ y) xs)"
  by (induction xs arbitrary: x) auto

lemma concat_loop_chunks_rest:
  "list_all plain_pair ps \<Longrightarrow>
   concat (loop_chunks False ps) = concat (map (\<lambda>y. '','' @ y) (map spec_pair ps))"
  by (induction ps) (auto simp add: pair_chunks_def spec_pair_plain)

lemma concat_loop_chunks:
  "list_all plain_pair ps \<Longrightarrow> concat (loop_chunks True ps) = spec_encode ps"
proof (cases ps)
  case Nil
  then show ?thesis by (simp add: spec_encode_def)
next
  case (Cons p qs)
  assume "list_all plain_pair ps"
  with Cons have "plain_pair p" "list_all plain_pair qs" by simp_all
  with Cons show ?thesis
    by (simp add: spec_encode_def spec_join_Cons pair_chunks_def spec_pair_plain
        concat_loop_chunks_rest del: spec_join.simps)
qed

lemma dump_pair_text:
  "dump_pair kf vm enc (Seq [PStr k, PStr v]) (first, out) =
     (if plain k
      then (if plain v
            then (None, False, out @ pair_chunks first (k, v))
            else (Some ReError, False, out @ [if first then [dq] else '','' @ [dq], k, [dq] @ ''=>'' @ [dq]]))
      else (Some ReError, False, out @ [if first then [dq] else '','' @ [dq]]))"
  by (simp add: dump_pair_def write_def escape_plain escape_not_plain pair_chunks_def)

lemma dump_loop_text_pairs:
  "list_all plain_pair ps \<Longrightarrow>
   dump_loop kf vm enc (text_pairs ps) (first, out)
     = (None, first \<and> ps = [], out @ loop_chunks first ps)"
proof (induction ps arbitrary: first out)
  case Nil
  show ?case by (simp add: text_pairs_def)
next
  case (Cons p ps)
  from Cons.prems have ps: "list_all plain_pair ps" and "plain_pair p" by simp_all
  then have p: "plain (fst p)" "plain (snd p)" by (simp_all add: plain_pair_def)
  have "text_pairs (p # ps) = Seq [PStr (fst p), PStr (snd p)] # text_pairs ps"
    by (simp add: text_pairs_def)
  then show ?case
    using p Cons.IH [OF ps, of False "out @ pair_chunks first p"]
    by (simp add: dump_pair_text)
qed

lemma dump_loop_text_pairs_error:
  "\<not> list_all plain_pair ps \<Longrightarrow>
   fst (dump_loop kf vm enc (text_pairs ps) (first, out)) = Some ReError"
proof (induction ps arbitrary: first out)
  case Nil
  then show ?case by simp
next
  case (Cons p ps)
  have t: "text_pairs (p # ps) = Seq [PStr (fst p), PStr (snd p)] # text_pairs ps"
    by (simp add: text_pairs_def)
  show ?case
  proof (cases "plain_pair p")
    case True
    with Cons.prems have "\<not> list_all plain_pair ps" by simp
    from Cons.IH [OF this, of False "out @ pair_chunks first p"] True show ?thesis
      by (simp add: t dump_pair_text plain_pair_def)
  next
    case False
    then show ?thesis by (auto simp add: t dump_pair_text plain_pair_def)
  qed
qed

lemma dumps_text_pairs:
  assumes "key_map \<noteq> HNotCallable" and "value_map \<noteq> HNotCallable"
  shows "dumps (py_list (text_pairs ps)) key_map value_map enc False =
           (if list_all plain_pair ps then Inr (PStr (spec_encode ps)) else Inl ReError)"
proof -
  from assms obtain kf where m: "check_maps key_map value_map = Inr kf"
    by (cases key_map; cases value_map) (auto simp add: check_maps_def)
  show ?thesis
  proof (cases "list_all plain_pair ps")
    case True
    from dump_loop_text_pairs [OF True, of kf value_map enc True "[]"] True show ?thesis
      by (simp add: dumps_def StringIO_def dump_Writable [OF get_items_py_list m]
          concat_loop_chunks)
  next
    case False
    from dump_loop_text_pairs_error [OF False, of kf value_map enc True "[]"] False show ?thesis
      by (cases "dump_loop kf value_map enc (text_pairs ps) (True, [])")
         (simp add: dumps_def StringIO_def dump_Writable [OF get_items_py_list m])
  qed
qed

section \<open>The decoder of the specification on the encoding of the specification\<close>

lemma quoted_spec_escape: "quoted (spec_escape s @ dq # r) = Inr (s, r)"
  by (induction s) auto

lemma pair_value_spec_escape: "pair_value (dq # spec_escape v @ dq # r) = Inr (Some v, r)"
  by (simp add: pair_value_def quoted_spec_escape)

lemma pair_spec_pair: "pair (spec_pair p @ r) = Inr ((fst p, Some (snd p)), r)"
proof -
  have "spec_pair p @ r = dq # (spec_escape (fst p) @ dq # (''=>'' @ dq # spec_escape (snd p) @ dq # r))"
    by (simp add: spec_pair_def)
  then show ?thesis
    by (simp add: pair_def quoted_spec_escape pair_value_spec_escape)
qed

lemma skip_ws_dq: "skip_ws (dq # s) = dq # s"
  by (simp add: skip_ws_def is_space_def)

lemma skip_ws_comma: "skip_ws (CHR '','' # s) = CHR '','' # s"
  by (simp add: skip_ws_def is_space_def)

lemma spec_join_starts: "spec_join (map spec_pair (p # ps)) = dq # tl (spec_join (map spec_pair (p # ps)))"
  by (cases ps) (simp_all add: spec_pair_def)

lemma pairs_spec_join:
  "pairs (spec_join (map spec_pair (p # ps))) = Inr (some_pairs (p # ps))"
proof (induction ps arbitrary: p)
  case Nil
  have "pair (spec_pair p) = Inr ((fst p, Some (snd p)), [])"
    using pair_spec_pair [of p "[]"] by simp
  then have "pairs (spec_pair p) = Inr [(fst p, Some (snd p))]"
    by (subst pairs.simps) (simp add: skip_ws_def)
  then show ?case by (simp add: some_pairs_def)
next
  case (Cons q ps)
  let ?rest = "spec_join (map spec_pair (q # ps))"
  have j: "spec_join (map spec_pair (p # q # ps)) = spec_pair p @ (CHR '','' # ?rest)"
    by simp
  obtain t where t: "?rest = dq # t"
    using spec_join_starts [of q ps] by blast
  have "pairs (spec_pair p @ (CHR '','' # ?rest)) = Inr ((fst p, Some (snd p)) # some_pairs (q # ps))"
  proof -
    have s1: "skip_ws (CHR '','' # ?rest) = CHR '','' # ?rest" by (rule skip_ws_comma)
    have s2: "skip_ws ?rest = ?rest" by (simp only: t skip_ws_dq)
    have ne: "?rest \<noteq> []" by (simp only: t) simp
    show ?thesis
      by (subst pairs.simps)
         (simp add: pair_spec_pair s1 s2 ne Cons.IH del: spec_join.simps list.map)
  qed
  then show ?case by (simp only: j) (simp add: some_pairs_def)
qed

lemma decode_spec_encode: "decode (spec_encode ps) = Inr (some_pairs ps)"
proof (cases ps)
  case Nil
  then show ?thesis by (simp add: decode_def spec_encode_def skip_ws_def some_pairs_def)
next
  case (Cons p qs)
  obtain t where t: "spec_join (map spec_pair (p # qs)) = dq # t"
    using spec_join_starts [of p qs] by blast
  have "skip_ws (spec_join (map spec_pair (p # qs))) = spec_join (map spec_pair (p # qs))"
    by (simp only: t skip_ws_dq)
  moreover have "spec_join (map spec_pair (p # qs)) \<noteq> []" by (simp only: t) simp
  ultimately show ?thesis
    using Cons by (simp add: decode_def spec_encode_def pairs_spec_join del: spec_join.simps list.map)
qed

lemma round_trip_plain:
  assumes "list_all plain_pair ps"
  shows "(case dumps (py_list (text_pairs ps)) HNone HNone enc False of
            Inr (PStr s) \<Rightarrow> decode s = Inr (some_pairs ps)
          | _ \<Rightarrow> False)"
  using assms by (simp add: dumps_text_pairs decode_spec_encode)

section \<open>The source object\<close>

text \<open>
  C7. \<^verbatim>\<open>dump\<close> takes its pairs from \<^verbatim>\<open>iteritems\<close> when the object has it, otherwise from
  \<^verbatim>\<open>items\<close>, otherwise from \<^verbatim>\<open>__iter__\<close>: the outcome is the one of dumping the chosen
  sequence, whatever the other attributes hold. An object with none of the three makes
  \<^verbatim>\<open>dump\<close> raise a \<^verbatim>\<open>TypeError\<close> and leaves the file as it was, whatever the other
  arguments are.
\<close>

theorem C7_source_shape_preference:
  "(iteritems obj = Some xs \<longrightarrow>
      get_items obj = Inr xs \<and> dump obj file km vm enc = dump (py_list xs) file km vm enc) \<and>
   (iteritems obj = None \<and> items obj = Some ys \<longrightarrow>
      get_items obj = Inr ys \<and> dump obj file km vm enc = dump (py_list ys) file km vm enc) \<and>
   (iteritems obj = None \<and> items obj = None \<and> iter obj = Some zs \<longrightarrow>
      get_items obj = Inr zs \<and> dump obj file km vm enc = dump (py_list zs) file km vm enc) \<and>
   (iteritems obj = None \<and> items obj = None \<and> iter obj = None \<longrightarrow>
      dump obj file km vm enc = (Some (TypeError ExpectedMapping), file) \<and>
      dumps obj km vm enc ru = Inl (TypeError ExpectedMapping))"
  by (simp add: dump_def dumps_def get_items_def py_list_def)

theorem C7_source_shape_preference_witness:
  "dump (py_dict [(PStr ''a'', PStr ''1'')]) StringIO HNone HNone latin1
     = dump (py_list [Seq [PStr ''a'', PStr ''1'']]) StringIO HNone HNone latin1 \<and>
   dump \<lparr>iteritems = None, items = Some [Seq [PStr ''a'', PStr ''1'']], iter = Some [Atom]\<rparr>
       StringIO HNone HNone latin1
     = dump (py_list [Seq [PStr ''a'', PStr ''1'']]) StringIO HNone HNone latin1 \<and>
   dump \<lparr>iteritems = None, items = None, iter = Some [Seq [PStr ''a'', PStr ''1'']]\<rparr>
       StringIO HNone HNone latin1
     = dump (py_list [Seq [PStr ''a'', PStr ''1'']]) StringIO HNone HNone latin1 \<and>
   dump \<lparr>iteritems = None, items = None, iter = None\<rparr> (Writable [''x'']) HNone HNone latin1
     = (Some (TypeError ExpectedMapping), Writable [''x''])"
  using
    C7_source_shape_preference [of "py_dict [(PStr ''a'', PStr ''1'')]"
      "[Seq [PStr ''a'', PStr ''1'']]" StringIO HNone HNone latin1]
    C7_source_shape_preference [of
      "\<lparr>iteritems = None, items = Some [Seq [PStr ''a'', PStr ''1'']], iter = Some [Atom]\<rparr>"
      _ StringIO HNone HNone latin1 "[Seq [PStr ''a'', PStr ''1'']]"]
    C7_source_shape_preference [of
      "\<lparr>iteritems = None, items = None, iter = Some [Seq [PStr ''a'', PStr ''1'']]\<rparr>"
      _ StringIO HNone HNone latin1 _ "[Seq [PStr ''a'', PStr ''1'']]"]
    C7_source_shape_preference [of "\<lparr>iteritems = None, items = None, iter = None\<rparr>"
      _ "Writable [''x'']" HNone HNone latin1]
  by (simp add: py_dict_def)

text \<open>
  C8. A source with no pairs, with each hook \<^verbatim>\<open>None\<close> or callable: \<^verbatim>\<open>dump\<close> returns
  normally and writes nothing, and \<^verbatim>\<open>dumps\<close> returns the empty string (decoded, when
  \<^verbatim>\<open>return_unicode\<close> is set).
\<close>

theorem C8_empty_source:
  assumes "get_items obj = Inr []" and "key_map \<noteq> HNotCallable" and "value_map \<noteq> HNotCallable"
  shows "dump obj (Writable out) key_map value_map enc = (None, Writable out) \<and>
         dumps obj key_map value_map enc False = Inr (PStr []) \<and>
         dumps obj key_map value_map enc True
           = (case codec_decode enc [] of Inl err \<Rightarrow> Inl err | Inr u \<Rightarrow> Inr (PUni u))"
  using assms
  by (cases key_map; cases value_map)
     (simp_all add: dump_def dumps_def StringIO_def check_maps_def)

theorem C8_empty_source_witness:
  "dump (py_list []) (Writable []) HNone HNone latin1 = (None, Writable []) \<and>
   dumps (py_list []) HNone HNone latin1 False = Inr (PStr []) \<and>
   dumps (py_dict []) HNone (HCallable py_str) latin1 True = Inr (PUni [])"
  using C8_empty_source [of "py_list []" HNone HNone "[]" latin1]
    C8_empty_source [of "py_dict []" HNone "HCallable py_str" "[]" latin1]
  by (simp add: get_items_def py_list_def py_dict_def latin1_def)

section \<open>Keys and values that are not text\<close>

text \<open>
  The pair under consideration is reached when the pairs before it were dumped without
  an error: \<open>pre\<close> is that prefix, \<open>out'\<close> what the sink holds after it, and \<open>kf\<close> the
  \<^verbatim>\<open>key_map\<close> in force in the loop.
\<close>

text \<open>
  What the loop does at a key or a value that is not text when the hook is absent: the
  error of line 150 for the key, the error of lines 168--169 for the value. For a key that
  is not a tuple the former names the key.
\<close>

lemma key_error_not_tuple: "\<not> is_tuple key \<Longrightarrow> key_error key = TypeError (KeyNotString key)"
  by (cases key) auto

lemma dump_stops_without_hook:
  assumes "get_items obj = Inr (pre @ Seq [key, val] # rest)"
    and "dump (py_list pre) (Writable out) key_map value_map enc = (None, Writable out')"
    and "check_maps key_map value_map = Inr kf"
  shows "(key_map = HNone \<and> \<not> is_text key \<longrightarrow>
            dump obj (Writable out) key_map value_map enc = (Some (key_error key), Writable out') \<and>
            dumps obj key_map value_map enc ru = Inl (key_error key)) \<and>
         (value_map = HNone \<and> resolve_key kf enc key = Inr k \<and> \<not> is_text val \<longrightarrow>
            dump obj (Writable out) key_map value_map enc
              = (Some (TypeError (ValueNotString val k)), Writable out') \<and>
            dumps obj key_map value_map enc ru = Inl (TypeError (ValueNotString val k)))"
proof (intro conjI impI)
  assume a: "key_map = HNone \<and> \<not> is_text key"
  with assms(3) have "kf = default_key_map" by (simp add: check_maps_def)
  with a have "resolve_key kf enc key = Inl (key_error key)"
    by (simp add: resolve_key_not_text default_key_map_def)
  from dump_stops_at_key [OF assms this]
  show d: "dump obj (Writable out) key_map value_map enc = (Some (key_error key), Writable out')" .
  from dumps_raises [OF d]
  show "dumps obj key_map value_map enc ru = Inl (key_error key)" .
next
  assume a: "value_map = HNone \<and> resolve_key kf enc key = Inr k \<and> \<not> is_text val"
  then have "resolve_value value_map enc k val = Inl (TypeError (ValueNotString val k))"
    by (simp add: resolve_value_not_text)
  from dump_stops_at_value [OF assms _ this] a
  show d: "dump obj (Writable out) key_map value_map enc
             = (Some (TypeError (ValueNotString val k)), Writable out')" by simp
  from dumps_raises [OF d]
  show "dumps obj key_map value_map enc ru = Inl (TypeError (ValueNotString val k))" .
qed

text \<open>
  C6 fails on the code. With no \<^verbatim>\<open>key_map\<close>, a key that is a tuple does not get the
  \<^verbatim>\<open>TypeError\<close> that names it: line 150 formats the message with \<^verbatim>\<open>% key\<close>, so the
  components of the tuple are taken as the arguments of the format. For \<^verbatim>\<open>(1, 2)\<close> and
  for \<^verbatim>\<open>()\<close> the formatting itself raises a \<^verbatim>\<open>TypeError\<close> that names nothing, and for
  \<^verbatim>\<open>(5,)\<close> the message names \<^verbatim>\<open>5\<close>, as it does for the key \<^verbatim>\<open>5\<close>. The rest of the claim
  holds: a value that is not text, a tuple included, raises the \<^verbatim>\<open>TypeError\<close> that names
  the value and the key, \<^verbatim>\<open>dumps([('a', 1)])\<close> raises, and with \<^verbatim>\<open>value_map=str\<close> it returns
  \<^verbatim>\<open>"a"=>"1"\<close>.
\<close>

theorem C6_tuple_key_is_not_named:
  "dumps (py_list [Seq [PTuple [PInt 1, PInt 2], PStr ''v'']]) HNone HNone latin1 False
     = Inl (TypeError FormatNotAllConverted) \<and>
   dumps (py_list [Seq [PTuple [], PStr ''v'']]) HNone HNone latin1 False
     = Inl (TypeError FormatNotEnoughArguments) \<and>
   dumps (py_list [Seq [PTuple [PInt 5], PStr ''v'']]) HNone HNone latin1 False
     = Inl (TypeError (KeyNotString (PInt 5))) \<and>
   dumps (py_list [Seq [PInt 5, PStr ''v'']]) HNone HNone latin1 False
     = Inl (TypeError (KeyNotString (PInt 5))) \<and>
   dumps (py_list [Seq [PStr ''a'', PTuple [PInt 1, PInt 2]]]) HNone HNone latin1 False
     = Inl (TypeError (ValueNotString (PTuple [PInt 1, PInt 2]) ''a'')) \<and>
   dumps (py_list [Seq [PStr ''a'', PInt 1]]) HNone HNone latin1 False
     = Inl (TypeError (ValueNotString (PInt 1) ''a'')) \<and>
   dumps (py_list [Seq [PStr ''a'', PInt 1]]) HNone (HCallable py_str) latin1 False
     = Inr (PStr ([dq] @ ''a'' @ [dq] @ ''=>'' @ [dq] @ ''1'' @ [dq]))"
  by (simp add: dumps_def dump_def StringIO_def get_items_py_list check_maps_def dump_pair_def
      default_key_map_def escape_def escape_re_def write_def int_str_def digit_char_def)

text \<open>
  C9. An error raised by \<^verbatim>\<open>key_map\<close> on a key that is not text, or by \<^verbatim>\<open>value_map\<close> on a
  value that is not text, is the error that \<^verbatim>\<open>dump\<close> and \<^verbatim>\<open>dumps\<close> raise, as it is.
\<close>

theorem C9_hook_error_propagates:
  assumes "get_items obj = Inr (pre @ Seq [key, val] # rest)"
    and "dump (py_list pre) (Writable out) key_map value_map enc = (None, Writable out')"
    and "check_maps key_map value_map = Inr kf"
  shows "(key_map = HCallable f \<and> \<not> is_text key \<and> f key = Inl err \<longrightarrow>
            dump obj (Writable out) key_map value_map enc = (Some err, Writable out') \<and>
            dumps obj key_map value_map enc ru = Inl err) \<and>
         (value_map = HCallable g \<and> resolve_key kf enc key = Inr k \<and>
          \<not> is_text val \<and> g val = Inl err \<longrightarrow>
            dump obj (Writable out) key_map value_map enc = (Some err, Writable out') \<and>
            dumps obj key_map value_map enc ru = Inl err)"
proof (intro conjI impI)
  assume a: "key_map = HCallable f \<and> \<not> is_text key \<and> f key = Inl err"
  with assms(3) have "kf = f" by (auto simp add: check_maps_def split: hook.splits)
  with a have "resolve_key kf enc key = Inl err" by (simp add: resolve_key_not_text)
  from dump_stops_at_key [OF assms this]
  show d: "dump obj (Writable out) key_map value_map enc = (Some err, Writable out')" .
  from dumps_raises [OF d] show "dumps obj key_map value_map enc ru = Inl err" .
next
  assume a: "value_map = HCallable g \<and> resolve_key kf enc key = Inr k \<and>
          \<not> is_text val \<and> g val = Inl err"
  then have "resolve_value value_map enc k val = Inl err"
    by (simp add: resolve_value_not_text)
  from dump_stops_at_value [OF assms _ this] a
  show d: "dump obj (Writable out) key_map value_map enc = (Some err, Writable out')" by simp
  from dumps_raises [OF d] show "dumps obj key_map value_map enc ru = Inl err" .
qed


theorem C9_hook_error_propagates_witness:
  "dump (py_list [Seq [PStr ''x'', PStr ''1''], Seq [PInt 5, PStr ''v'']]) (Writable [])
       (HCallable (\<lambda>v. Inl (Raised ''Boom''))) HNone latin1
     = (Some (Raised ''Boom''), Writable [[dq], ''x'', [dq] @ ''=>'' @ [dq], ''1'', [dq]]) \<and>
   dumps (py_list [Seq [PStr ''x'', PStr ''1''], Seq [PInt 5, PStr ''v'']])
       (HCallable (\<lambda>v. Inl (Raised ''Boom''))) HNone latin1 False
     = Inl (Raised ''Boom'') \<and>
   dump (py_list [Seq [PStr ''x'', PStr ''1''], Seq [PStr ''k'', PInt 5]]) (Writable [])
       HNone (HCallable (\<lambda>v. Inl (Raised ''Boom''))) latin1
     = (Some (Raised ''Boom''), Writable [[dq], ''x'', [dq] @ ''=>'' @ [dq], ''1'', [dq]]) \<and>
   dumps (py_list [Seq [PStr ''x'', PStr ''1''], Seq [PStr ''k'', PInt 5]])
       HNone (HCallable (\<lambda>v. Inl (Raised ''Boom''))) latin1 False
     = Inl (Raised ''Boom'')"
  using
    C9_hook_error_propagates [where obj = "py_list [Seq [PStr ''x'', PStr ''1''], Seq [PInt 5, PStr ''v'']]"
      and pre = "[Seq [PStr ''x'', PStr ''1'']]" and key = "PInt 5" and val = "PStr ''v''"
      and rest = "[]" and out = "[]" and key_map = "HCallable (\<lambda>v. Inl (Raised ''Boom''))"
      and value_map = HNone and enc = latin1
      and out' = "[[dq], ''x'', [dq] @ ''=>'' @ [dq], ''1'', [dq]]"
      and kf = "\<lambda>v. Inl (Raised ''Boom'')" and f = "\<lambda>v. Inl (Raised ''Boom'')"
      and err = "Raised ''Boom''" and ru = False]
    C9_hook_error_propagates [where obj = "py_list [Seq [PStr ''x'', PStr ''1''], Seq [PStr ''k'', PInt 5]]"
      and pre = "[Seq [PStr ''x'', PStr ''1'']]" and key = "PStr ''k''" and val = "PInt 5"
      and rest = "[]" and out = "[]" and key_map = HNone
      and value_map = "HCallable (\<lambda>v. Inl (Raised ''Boom''))" and enc = latin1
      and out' = "[[dq], ''x'', [dq] @ ''=>'' @ [dq], ''1'', [dq]]"
      and kf = default_key_map and g = "\<lambda>v. Inl (Raised ''Boom'')" and k = "''k''"
      and err = "Raised ''Boom''" and ru = False]
  by (simp add: get_items_py_list dump_def check_maps_def dump_pair_def escape_def
      escape_re_def write_def)

section \<open>The buffered entry point\<close>

text \<open>
  C10. Whatever \<^verbatim>\<open>dump\<close> does on a sink, \<^verbatim>\<open>dumps\<close> does on its own buffer: when \<^verbatim>\<open>dump\<close>
  raises, \<^verbatim>\<open>dumps\<close> raises the same error; when \<^verbatim>\<open>dump\<close> returns, having appended the
  chunks \<open>ws\<close> to the sink, \<^verbatim>\<open>dumps\<close> returns their concatenation, decoded with the codec
  when \<^verbatim>\<open>return_unicode\<close> is set.
\<close>

theorem C10_dumps_is_buffered_dump:
  assumes "dump obj (Writable out) key_map value_map enc = (r, file')"
  shows "\<exists>ws. file' = Writable (out @ ws) \<and>
           dumps obj key_map value_map enc False
             = (case r of Some err \<Rightarrow> Inl err | None \<Rightarrow> Inr (PStr (concat ws))) \<and>
           dumps obj key_map value_map enc True
             = (case r of Some err \<Rightarrow> Inl err
                | None \<Rightarrow> (case codec_decode enc (concat ws) of
                              Inl err \<Rightarrow> Inl err | Inr u \<Rightarrow> Inr (PUni u)))"
  using dump_Writable_result [OF assms]
  by (intro exI [of _ "chunks (snd (dump obj (Writable []) key_map value_map enc))"])
     (simp add: dumps_by_dump split: option.splits)

theorem C10_dumps_is_buffered_dump_witness:
  "dump (py_list [Seq [PStr ''x'', PStr ''1''], Seq [PStr ''y'', PStr ''2'']])
      (Writable [''head'']) HNone HNone latin1
     = (None, Writable [''head'', [dq], ''x'', [dq] @ ''=>'' @ [dq], ''1'', [dq],
                        '','' @ [dq], ''y'', [dq] @ ''=>'' @ [dq], ''2'', [dq]]) \<and>
   dumps (py_list [Seq [PStr ''x'', PStr ''1''], Seq [PStr ''y'', PStr ''2'']])
      HNone HNone latin1 False
     = Inr (PStr (concat [[dq], ''x'', [dq] @ ''=>'' @ [dq], ''1'', [dq],
                          '','' @ [dq], ''y'', [dq] @ ''=>'' @ [dq], ''2'', [dq]]))"
proof -
  have d: "dump (py_list [Seq [PStr ''x'', PStr ''1''], Seq [PStr ''y'', PStr ''2'']])
      (Writable [''head'']) HNone HNone latin1
     = (None, Writable [''head'', [dq], ''x'', [dq] @ ''=>'' @ [dq], ''1'', [dq],
                        '','' @ [dq], ''y'', [dq] @ ''=>'' @ [dq], ''2'', [dq]])"
    by (simp add: get_items_py_list dump_def check_maps_def dump_pair_def escape_def
        escape_re_def write_def)
  from C10_dumps_is_buffered_dump [OF d] d show ?thesis by auto
qed

section \<open>Null values\<close>




section \<open>The check of \<^verbatim>\<open>value_map\<close>\<close>

text \<open>
  C5 fails on the code. The test of \<^verbatim>\<open>value_map\<close> is the last \<^verbatim>\<open>elif\<close> of the chain that
  starts with \<^verbatim>\<open>if key_map is None\<close>, so it runs only when a callable \<^verbatim>\<open>key_map\<close> was
  supplied. With no \<^verbatim>\<open>key_map\<close>, a \<^verbatim>\<open>value_map\<close> that is not callable is accepted: an
  empty source and a source of text are dumped without any error, and the first value
  that is not text raises the interpreter's error of calling a non-callable object, after
  the earlier pairs were written. With a callable \<^verbatim>\<open>key_map\<close> the configuration error is
  raised.
\<close>

theorem C5_value_map_unchecked_without_key_map:
  "dump (py_list []) (Writable []) HNone HNotCallable latin1 = (None, Writable []) \<and>
   dumps (py_list [Seq [PStr ''a'', PStr ''1'']]) HNone HNotCallable latin1 False
     = Inr (PStr ([dq] @ ''a'' @ [dq] @ ''=>'' @ [dq] @ ''1'' @ [dq])) \<and>
   dump (py_list [Seq [PStr ''a'', PStr ''1''], Seq [PStr ''b'', PInt 2]]) (Writable [])
       HNone HNotCallable latin1
     = (Some (TypeError ObjectNotCallable),
        Writable [[dq], ''a'', [dq] @ ''=>'' @ [dq], ''1'', [dq]]) \<and>
   dump (py_list []) (Writable []) (HCallable py_str) HNotCallable latin1
     = (Some (TypeError ValueMapNotCallable), Writable [])"
  by (simp add: dumps_def dump_def StringIO_def get_items_py_list check_maps_def dump_pair_def
      escape_def escape_re_def write_def)

section \<open>Escaping, rendering and the round trip\<close>

text \<open>
  C3 fails on the code. On a key or a value that holds a double quote or a backslash,
  the substitution raises \<^verbatim>\<open>error('invalid group reference')\<close> where the specification
  asks for the character prefixed with a backslash; \<^verbatim>\<open>dump\<close> stops there, the opening
  quote already written.
\<close>

theorem C3_escape_raises:
  "escape (''a'' @ [dq] @ ''b'') = Inl ReError \<and>
   escape (''c'' @ [bs] @ ''d'') = Inl ReError \<and>
   spec_escape (''a'' @ [dq] @ ''b'') = ''a'' @ [bs, dq] @ ''b'' \<and>
   spec_escape (''c'' @ [bs] @ ''d'') = ''c'' @ [bs, bs] @ ''d'' \<and>
   dump (py_list [Seq [PStr (''a'' @ [dq] @ ''b''), PStr (''c'' @ [bs] @ ''d'')]]) (Writable [])
       HNone HNone latin1
     = (Some ReError, Writable [[dq]])"
  by (simp add: dump_def get_items_py_list check_maps_def dump_pair_def
      escape_def escape_re_def escape_repl_def escape_re_match_def write_def)


text \<open>
  C4 fails on the code, by the same defect of the substitution. The example of the claim is rendered as it
  says, and so is every sequence of pairs of text without quote and backslash
  (\<open>dumps_text_pairs\<close>); but a sequence with a quote in a value is not rendered: \<^verbatim>\<open>dump\<close>
  raises in the middle of the second pair, and \<^verbatim>\<open>dumps\<close> returns nothing.
\<close>

theorem C4_pairs_not_all_rendered:
  "dumps (py_list (text_pairs [(''x'', ''1''), (''y'', ''2'')])) HNone HNone latin1 False
     = Inr (PStr ([dq] @ ''x'' @ [dq] @ ''=>'' @ [dq] @ ''1'' @ [dq] @ '','' @
                  [dq] @ ''y'' @ [dq] @ ''=>'' @ [dq] @ ''2'' @ [dq])) \<and>
   spec_encode [(''x'', ''1''), (''say'', [dq] @ ''hi'' @ [dq])]
     = [dq] @ ''x'' @ [dq] @ ''=>'' @ [dq] @ ''1'' @ [dq] @ '','' @
       [dq] @ ''say'' @ [dq] @ ''=>'' @ [dq] @ [bs, dq] @ ''hi'' @ [bs, dq] @ [dq] \<and>
   dump (py_list (text_pairs [(''x'', ''1''), (''say'', [dq] @ ''hi'' @ [dq])])) (Writable [])
       HNone HNone latin1
     = (Some ReError, Writable [[dq], ''x'', [dq] @ ''=>'' @ [dq], ''1'', [dq],
                                '','' @ [dq], ''say'', [dq] @ ''=>'' @ [dq]]) \<and>
   dumps (py_list (text_pairs [(''x'', ''1''), (''say'', [dq] @ ''hi'' @ [dq])])) HNone HNone
       latin1 False
     = Inl ReError"
  by (simp add: dumps_def dump_def StringIO_def get_items_py_list check_maps_def dump_pair_def
      text_pairs_def spec_encode_def spec_pair_def
      escape_def escape_re_def escape_repl_def escape_re_match_def write_def)

text \<open>
  C2 fails on the code, by the same defect of the substitution. For a mapping with a backslash in a value,
  \<^verbatim>\<open>dumps\<close> raises, so there is no text to decode; the encoding that the specification
  describes is decoded to the pairs of the mapping. For mappings of text without quote
  and backslash the round trip holds (\<open>round_trip_plain\<close>).
\<close>

theorem C2_round_trip_fails:
  "dumps (py_dict [(PStr ''path'', PStr (''C:'' @ [bs] @ ''tmp''))]) HNone HNone latin1 False
     = Inl ReError \<and>
   decode (spec_encode [(''path'', ''C:'' @ [bs] @ ''tmp'')])
     = Inr [(''path'', Some (''C:'' @ [bs] @ ''tmp''))]"
  by (simp add: dumps_def dump_def StringIO_def get_items_def py_dict_def check_maps_def
      dump_pair_def escape_def escape_re_def escape_repl_def escape_re_match_def write_def
      decode_spec_encode some_pairs_def)

end
